theory Spec2Isabelle
  imports Main
begin

section \<open>Values, errors and outcomes\<close>

text \<open>
  The football-manager domain of \<^verbatim>\<open>projekt/src\<close>: \<^verbatim>\<open>player.py\<close>, \<^verbatim>\<open>team.py\<close>,
  \<^verbatim>\<open>league.py\<close> and \<^verbatim>\<open>manager.py\<close>. Python integers are \<open>int\<close>. Objects are compared by
  identity (no class defines \<^verbatim>\<open>__eq__\<close>), so rosters hold references into a store.
  Methods that compute with floats (\<^verbatim>\<open>get_market_value\<close>, the two averages and
  \<^verbatim>\<open>simulate_match\<close>) are not part of the model.
\<close>

datatype error = ValueError | TypeError | AttributeError | KeyError | FileNotFoundError

text \<open>
  A mutating method either returns or raises; in both cases the receiver is left in some
  state, which the caller can observe afterwards.
\<close>

datatype 's outcome = Done 's | Raised error 's

fun state_of :: "'s outcome \<Rightarrow> 's" where
  "state_of (Done s) = s"
| "state_of (Raised e s) = s"

fun raised :: "'s outcome \<Rightarrow> bool" where
  "raised (Done s) = False"
| "raised (Raised e s) = True"

datatype position = GOALKEEPER | DEFENDER | MIDFIELDER | FORWARD

text \<open>Arguments whose run-time type the source inspects (\<^verbatim>\<open>isinstance\<close>, \<^verbatim>\<open>==\<close> on strings).\<close>

datatype pyval = PyInt int | PyStr string | PyPos position

section \<open>Player\<close>

record player =
  name :: string
  position :: position
  age :: int
  overall_rating :: int
  stamina :: int
  injured :: bool
  is_captain :: bool
  goals :: int
  assists :: int
  matches_played :: int
  yellow_cards :: int
  red_cards :: int
  suspended :: bool
  contract_years_left :: int
  morale :: int
  retired :: bool
  on_loan :: bool
  loaned_to :: "string option"
  loan_duration :: int

text \<open>The assignments of \<^verbatim>\<open>Player.__init__\<close>, which run once both range checks have passed.\<close>

definition new_player :: "string \<Rightarrow> position \<Rightarrow> int \<Rightarrow> int \<Rightarrow> player" where
  "new_player nm pos a r =
     \<lparr> name = nm, position = pos, age = a, overall_rating = r,
       stamina = 100, injured = False, is_captain = False,
       goals = 0, assists = 0, matches_played = 0,
       yellow_cards = 0, red_cards = 0, suspended = False,
       contract_years_left = 3, morale = 70, retired = False,
       on_loan = False, loaned_to = None, loan_duration = 0 \<rparr>"

definition Player :: "string \<Rightarrow> position \<Rightarrow> int \<Rightarrow> int \<Rightarrow> error + player" where
  "Player nm pos a r =
     (if r < 0 \<or> r > 100 then Inl ValueError
      else if a < 15 \<or> a > 50 then Inl ValueError
      else Inr (new_player nm pos a r))"

definition train :: "player \<Rightarrow> player" where
  "train p =
     (if \<not> injured p
      then p\<lparr> overall_rating := min 100 (overall_rating p + 1),
              stamina := max 0 (stamina p - 10) \<rparr>
      else p)"

definition rest :: "player \<Rightarrow> player" where
  "rest p = p\<lparr> stamina := min 100 (stamina p + 20) \<rparr>"

definition injure :: "player \<Rightarrow> player" where
  "injure p = p\<lparr> injured := True \<rparr>"

definition is_exhausted :: "player \<Rightarrow> bool" where
  "is_exhausted p = (stamina p < 30)"

definition recover_from_injury :: "player \<Rightarrow> player outcome" where
  "recover_from_injury p =
     (if \<not> injured p then Raised ValueError p else Done (p\<lparr> injured := False \<rparr>))"

definition age_up :: "player \<Rightarrow> player" where
  "age_up p =
     (let p1 = p\<lparr> age := age p + 1 \<rparr>
      in if age p1 > 30 then p1\<lparr> overall_rating := max 0 (overall_rating p1 - 1) \<rparr> else p1)"

definition change_position :: "player \<Rightarrow> pyval \<Rightarrow> player outcome" where
  "change_position p new_position =
     (case new_position of
        PyPos pos \<Rightarrow> Done (p\<lparr> position := pos \<rparr>)
      | _ \<Rightarrow> Raised TypeError p)"

definition promote_to_captain :: "player \<Rightarrow> player" where
  "promote_to_captain p = p\<lparr> is_captain := True \<rparr>"

definition demote_from_captain :: "player \<Rightarrow> player" where
  "demote_from_captain p = p\<lparr> is_captain := False \<rparr>"

definition record_match :: "player \<Rightarrow> int \<Rightarrow> int \<Rightarrow> player outcome" where
  "record_match p g a =
     (if g < 0 \<or> a < 0 then Raised ValueError p
      else Done (p\<lparr> goals := goals p + g, assists := assists p + a,
                    matches_played := matches_played p + 1 \<rparr>))"

definition receive_card :: "player \<Rightarrow> pyval \<Rightarrow> player outcome" where
  "receive_card p card_type =
     (if card_type = PyStr ''yellow'' then
        (let p1 = p\<lparr> yellow_cards := yellow_cards p + 1 \<rparr>
         in if yellow_cards p1 = 2
            then Done (p1\<lparr> red_cards := red_cards p1 + 1, yellow_cards := 0,
                            suspended := True \<rparr>)
            else Done p1)
      else if card_type = PyStr ''red'' then
        Done (p\<lparr> red_cards := red_cards p + 1, suspended := True \<rparr>)
      else Raised ValueError p)"

definition reset_cards :: "player \<Rightarrow> player" where
  "reset_cards p = p\<lparr> yellow_cards := 0, red_cards := 0, suspended := False \<rparr>"

definition renew_contract :: "player \<Rightarrow> int \<Rightarrow> player outcome" where
  "renew_contract p years =
     (if years \<le> 0 then Raised ValueError p
      else Done (p\<lparr> contract_years_left := years \<rparr>))"

definition is_contract_expiring :: "player \<Rightarrow> bool" where
  "is_contract_expiring p = (contract_years_left p \<le> 1)"

definition decrement_contract :: "player \<Rightarrow> player" where
  "decrement_contract p =
     (if contract_years_left p > 0
      then p\<lparr> contract_years_left := contract_years_left p - 1 \<rparr> else p)"

definition change_morale :: "player \<Rightarrow> pyval \<Rightarrow> player outcome" where
  "change_morale p amount =
     (case amount of
        PyInt n \<Rightarrow> Done (p\<lparr> morale := max 0 (min 100 (morale p + n)) \<rparr>)
      | _ \<Rightarrow> Raised ValueError p)"

definition get_morale_status :: "player \<Rightarrow> string" where
  "get_morale_status p =
     (if morale p \<ge> 80 then ''Excellent''
      else if morale p \<ge> 60 then ''Good''
      else if morale p \<ge> 40 then ''Average''
      else if morale p \<ge> 20 then ''Low''
      else ''Very Low'')"

definition check_retirement :: "player \<Rightarrow> player" where
  "check_retirement p = (if age p \<ge> 40 then p\<lparr> retired := True \<rparr> else p)"

definition loan_to :: "player \<Rightarrow> string \<Rightarrow> int \<Rightarrow> player outcome" where
  "loan_to p club_name duration =
     (if on_loan p then Raised ValueError p
      else if duration \<le> 0 then Raised ValueError p
      else Done (p\<lparr> on_loan := True, loaned_to := Some club_name,
                    loan_duration := duration \<rparr>))"

definition return_from_loan :: "player \<Rightarrow> player outcome" where
  "return_from_loan p =
     (if \<not> on_loan p then Raised ValueError p
      else Done (p\<lparr> on_loan := False, loaned_to := None, loan_duration := 0 \<rparr>))"

definition reduce_loan_duration :: "player \<Rightarrow> player outcome" where
  "reduce_loan_duration p =
     (if on_loan p then
        (let p1 = p\<lparr> loan_duration := loan_duration p - 1 \<rparr>
         in if loan_duration p1 \<le> 0 then return_from_loan p1 else Done p1)
      else Done p)"

subsection \<open>Sequences of method calls on one player\<close>

datatype player_call =
    Train | Rest | Injure | IsExhausted | RecoverFromInjury | AgeUp
  | ChangePosition pyval | PromoteToCaptain | DemoteFromCaptain
  | RecordMatch int int | ReceiveCard pyval | ResetCards
  | RenewContract int | IsContractExpiring | DecrementContract
  | ChangeMorale pyval | GetMoraleStatus | CheckRetirement
  | LoanTo string int | ReturnFromLoan | ReduceLoanDuration | GetMarketValue

text \<open>
  The effect of one call on the player. The four queries read the player only; the value
  of \<^verbatim>\<open>get_market_value\<close> is a float and is not represented here.
\<close>

fun call :: "player \<Rightarrow> player_call \<Rightarrow> player outcome" where
  "call p Train = Done (train p)"
| "call p Rest = Done (rest p)"
| "call p Injure = Done (injure p)"
| "call p IsExhausted = Done p"
| "call p RecoverFromInjury = recover_from_injury p"
| "call p AgeUp = Done (age_up p)"
| "call p (ChangePosition v) = change_position p v"
| "call p PromoteToCaptain = Done (promote_to_captain p)"
| "call p DemoteFromCaptain = Done (demote_from_captain p)"
| "call p (RecordMatch g a) = record_match p g a"
| "call p (ReceiveCard v) = receive_card p v"
| "call p ResetCards = Done (reset_cards p)"
| "call p (RenewContract y) = renew_contract p y"
| "call p IsContractExpiring = Done p"
| "call p DecrementContract = Done (decrement_contract p)"
| "call p (ChangeMorale v) = change_morale p v"
| "call p GetMoraleStatus = Done p"
| "call p CheckRetirement = Done (check_retirement p)"
| "call p (LoanTo c d) = loan_to p c d"
| "call p ReturnFromLoan = return_from_loan p"
| "call p ReduceLoanDuration = reduce_loan_duration p"
| "call p GetMarketValue = Done p"

text \<open>A caller that catches every exception and carries on with the same object.\<close>

fun calls :: "player \<Rightarrow> player_call list \<Rightarrow> player" where
  "calls p [] = p"
| "calls p (c # cs) = calls (state_of (call p c)) cs"

definition in_bounds :: "player \<Rightarrow> bool" where
  "in_bounds p \<longleftrightarrow>
     0 \<le> stamina p \<and> stamina p \<le> 100 \<and> 0 \<le> morale p \<and> morale p \<le> 100
     \<and> overall_rating p \<le> 100"

section \<open>Team\<close>

text \<open>
  Players are objects with identity: a roster is a list of references, and the store maps
  each reference to the player's current fields. \<open>fresh\<close> is the next unused reference.
\<close>

type_synonym ref = nat

record heap =
  cells :: "ref \<Rightarrow> player"
  fresh :: ref

definition alloc :: "heap \<Rightarrow> player \<Rightarrow> ref \<times> heap" where
  "alloc h p = (fresh h, h\<lparr> cells := (cells h)(fresh h := p), fresh := Suc (fresh h) \<rparr>)"

text \<open>
  \<^verbatim>\<open>Team.name\<close> is the field \<open>team_name\<close>. \<open>points\<close> and \<open>max_players\<close> are attributes that
  \<^verbatim>\<open>Team.__init__\<close> does not create but \<^verbatim>\<open>League\<close> and \<^verbatim>\<open>Manager\<close> read; callers (the test
  suite does) assign them from outside. \<open>None\<close> is an attribute that was never assigned,
  and reading it raises \<^verbatim>\<open>AttributeError\<close>.
\<close>

record team =
  team_name :: string
  players :: "ref list"
  formation :: string
  starting_eleven :: "ref list"
  bench :: "ref list"
  goals_scored :: int
  goals_conceded :: int
  wins :: int
  draws :: int
  losses :: int
  points :: "int option"
  max_players :: "int option"

definition Team :: "string \<Rightarrow> team" where
  "Team nm = \<lparr> team_name = nm, players = [], formation = ''4-4-2'',
               starting_eleven = [], bench = [],
               goals_scored = 0, goals_conceded = 0, wins = 0, draws = 0, losses = 0,
               points = None, max_players = None \<rparr>"

definition add_player :: "team \<Rightarrow> ref \<Rightarrow> heap \<Rightarrow> team outcome" where
  "add_player t r h =
     (if r \<in> set (players t) then Raised ValueError t
      else if retired (cells h r) then Raised ValueError t
      else Done (t\<lparr> players := players t @ [r] \<rparr>))"

definition remove_player :: "team \<Rightarrow> ref \<Rightarrow> team outcome" where
  "remove_player t r =
     (if r \<notin> set (players t) then Raised ValueError t
      else Done (t\<lparr> players := remove1 r (players t) \<rparr>))"

definition set_formation :: "team \<Rightarrow> string \<Rightarrow> team outcome" where
  "set_formation t f =
     (if f \<notin> set [''4-4-2'', ''4-3-3'', ''3-5-2''] then Raised ValueError t
      else Done (t\<lparr> formation := f \<rparr>))"

text \<open>The loop of \<^verbatim>\<open>assign_starting_eleven\<close>: the first listed player that is not on the roster.\<close>

fun first_not_in_team :: "ref list \<Rightarrow> ref list \<Rightarrow> ref option" where
  "first_not_in_team [] roster = None"
| "first_not_in_team (p # ps) roster =
     (if p \<notin> set roster then Some p else first_not_in_team ps roster)"

definition assign_starting_eleven :: "team \<Rightarrow> ref list \<Rightarrow> team outcome" where
  "assign_starting_eleven t ps =
     (if length ps \<noteq> 11 then Raised ValueError t
      else case first_not_in_team ps (players t) of
             Some p \<Rightarrow> Raised ValueError t
           | None \<Rightarrow> Done (t\<lparr> starting_eleven := ps \<rparr>))"

definition update_match_result :: "team \<Rightarrow> int \<Rightarrow> int \<Rightarrow> team" where
  "update_match_result t goals_for goals_against =
     (let t1 = t\<lparr> goals_scored := goals_scored t + goals_for,
                  goals_conceded := goals_conceded t + goals_against \<rparr>
      in if goals_for > goals_against then t1\<lparr> wins := wins t1 + 1 \<rparr>
         else if goals_for < goals_against then t1\<lparr> losses := losses t1 + 1 \<rparr>
         else t1\<lparr> draws := draws t1 + 1 \<rparr>)"

definition get_injured_players :: "team \<Rightarrow> heap \<Rightarrow> ref list" where
  "get_injured_players t h = filter (\<lambda>r. injured (cells h r)) (players t)"

definition get_players_by_position :: "team \<Rightarrow> position \<Rightarrow> heap \<Rightarrow> ref list" where
  "get_players_by_position t pos h = filter (\<lambda>r. position (cells h r) = pos) (players t)"

definition get_loaned_players :: "team \<Rightarrow> heap \<Rightarrow> ref list" where
  "get_loaned_players t h = filter (\<lambda>r. on_loan (cells h r)) (players t)"

text \<open>
  The four "best of the roster" methods share one loop shape: start with the first
  player, walk the rest, and replace the current best only on a strictly greater value.
  \<open>scan\<close> is that loop, with the compared attribute as a parameter.
\<close>

fun scan :: "(ref \<Rightarrow> int) \<Rightarrow> ref \<Rightarrow> ref list \<Rightarrow> ref" where
  "scan f best [] = best"
| "scan f best (p # ps) = (if f p > f best then scan f p ps else scan f best ps)"

definition get_best_player :: "team \<Rightarrow> heap \<Rightarrow> ref option" where
  "get_best_player t h =
     (case players t of
        [] \<Rightarrow> None
      | p0 # ps \<Rightarrow> Some (scan (\<lambda>r. overall_rating (cells h r)) p0 ps))"

definition get_top_scorer :: "team \<Rightarrow> heap \<Rightarrow> ref option" where
  "get_top_scorer t h =
     (case players t of
        [] \<Rightarrow> None
      | p0 # ps \<Rightarrow> Some (scan (\<lambda>r. goals (cells h r)) p0 ps))"

definition get_top_assistant :: "team \<Rightarrow> heap \<Rightarrow> ref option" where
  "get_top_assistant t h =
     (case players t of
        [] \<Rightarrow> None
      | p0 # ps \<Rightarrow> Some (scan (\<lambda>r. assists (cells h r)) p0 ps))"

definition get_most_active_player :: "team \<Rightarrow> heap \<Rightarrow> ref option" where
  "get_most_active_player t h =
     (case players t of
        [] \<Rightarrow> None
      | p0 # ps \<Rightarrow> Some (scan (\<lambda>r. matches_played (cells h r)) p0 ps))"

definition swap_players :: "team \<Rightarrow> ref \<Rightarrow> ref \<Rightarrow> heap \<Rightarrow> team outcome" where
  "swap_players t player_out player_in h =
     (if player_out \<notin> set (players t) then Raised ValueError t
      else case remove_player t player_out of
             Raised e t1 \<Rightarrow> Raised e t1
           | Done t1 \<Rightarrow> add_player t1 player_in h)"

section \<open>League\<close>

text \<open>Teams are objects with identity too; a league lists references into a store of teams.\<close>

record league =
  league_name :: string
  teams :: "ref list"

definition League :: "string \<Rightarrow> league" where
  "League nm = \<lparr> league_name = nm, teams = [] \<rparr>"

datatype league_arg = TeamObj ref | OtherObj

definition add_team :: "league \<Rightarrow> league_arg \<Rightarrow> league outcome" where
  "add_team lg a =
     (case a of
        OtherObj \<Rightarrow> Raised TypeError lg
      | TeamObj t \<Rightarrow>
          if t \<in> set (teams lg) then Raised ValueError lg
          else Done (lg\<lparr> teams := teams lg @ [t] \<rparr>))"

definition remove_team :: "league \<Rightarrow> ref \<Rightarrow> league outcome" where
  "remove_team lg t =
     (if t \<notin> set (teams lg) then Raised ValueError lg
      else Done (lg\<lparr> teams := remove1 t (teams lg) \<rparr>))"

definition get_team_by_name :: "league \<Rightarrow> (ref \<Rightarrow> team) \<Rightarrow> string \<Rightarrow> ref option" where
  "get_team_by_name lg ts nm = find (\<lambda>t. team_name (ts t) = nm) (teams lg)"

definition goal_diff :: "team \<Rightarrow> int" where
  "goal_diff t = goals_scored t - goals_conceded t"

text \<open>
  The loop of \<^verbatim>\<open>get_top_team\<close> over \<^verbatim>\<open>self.teams[1:]\<close>. Each iteration reads
  \<^verbatim>\<open>team.points\<close> and \<^verbatim>\<open>top_team.points\<close>, which raises when the attribute was never set.
\<close>

fun top_scan :: "(ref \<Rightarrow> team) \<Rightarrow> ref \<Rightarrow> ref list \<Rightarrow> error + ref" where
  "top_scan ts top_team [] = Inr top_team"
| "top_scan ts top_team (t # rest_teams) =
     (case points (ts t) of
        None \<Rightarrow> Inl AttributeError
      | Some pt \<Rightarrow>
         (case points (ts top_team) of
            None \<Rightarrow> Inl AttributeError
          | Some ptop \<Rightarrow>
              if pt > ptop then top_scan ts t rest_teams
              else if pt = ptop then
                (let top_diff = goals_scored (ts top_team) - goals_conceded (ts top_team);
                     team_diff = goals_scored (ts t) - goals_conceded (ts t)
                 in if team_diff > top_diff then top_scan ts t rest_teams
                    else top_scan ts top_team rest_teams)
              else top_scan ts top_team rest_teams))"

definition get_top_team :: "league \<Rightarrow> (ref \<Rightarrow> team) \<Rightarrow> error + ref option" where
  "get_top_team lg ts =
     (case teams lg of
        [] \<Rightarrow> Inr None
      | t0 # rest_teams \<Rightarrow>
          (case top_scan ts t0 rest_teams of Inl e \<Rightarrow> Inl e | Inr t \<Rightarrow> Inr (Some t)))"

fun bottom_scan :: "(ref \<Rightarrow> team) \<Rightarrow> ref \<Rightarrow> ref list \<Rightarrow> error + ref" where
  "bottom_scan ts bottom_team [] = Inr bottom_team"
| "bottom_scan ts bottom_team (t # rest_teams) =
     (case points (ts t) of
        None \<Rightarrow> Inl AttributeError
      | Some pt \<Rightarrow>
         (case points (ts bottom_team) of
            None \<Rightarrow> Inl AttributeError
          | Some pbot \<Rightarrow>
              if pt < pbot then bottom_scan ts t rest_teams
              else if pt = pbot then
                (let bottom_diff = goals_scored (ts bottom_team) - goals_conceded (ts bottom_team);
                     team_diff = goals_scored (ts t) - goals_conceded (ts t)
                 in if team_diff < bottom_diff then bottom_scan ts t rest_teams
                    else bottom_scan ts bottom_team rest_teams)
              else bottom_scan ts bottom_team rest_teams))"

definition get_bottom_team :: "league \<Rightarrow> (ref \<Rightarrow> team) \<Rightarrow> error + ref option" where
  "get_bottom_team lg ts =
     (case teams lg of
        [] \<Rightarrow> Inr None
      | t0 # rest_teams \<Rightarrow>
          (case bottom_scan ts t0 rest_teams of Inl e \<Rightarrow> Inl e | Inr t \<Rightarrow> Inr (Some t)))"

definition has_team :: "league \<Rightarrow> (ref \<Rightarrow> team) \<Rightarrow> string \<Rightarrow> bool" where
  "has_team lg ts nm = list_ex (\<lambda>t. team_name (ts t) = nm) (teams lg)"

section \<open>Manager\<close>

record manager =
  team :: team
  budget :: int

definition Manager :: "team \<Rightarrow> manager" where
  "Manager t = \<lparr> team = t, budget = 100 \<rparr>"

definition buy_player :: "manager \<Rightarrow> ref \<Rightarrow> int \<Rightarrow> heap \<Rightarrow> manager outcome" where
  "buy_player m r price h =
     (if r \<in> set (players (team m)) then Raised ValueError m
      else case max_players (team m) of
             None \<Rightarrow> Raised AttributeError m
           | Some mx \<Rightarrow>
               if int (length (players (team m))) \<ge> mx then Raised ValueError m
               else if price > budget m then Raised ValueError m
               else (case add_player (team m) r h of
                       Raised e t1 \<Rightarrow> Raised e (m\<lparr> team := t1 \<rparr>)
                     | Done t1 \<Rightarrow> Done (m\<lparr> team := t1, budget := budget m - price \<rparr>)))"

definition sell_player :: "manager \<Rightarrow> ref \<Rightarrow> int \<Rightarrow> manager outcome" where
  "sell_player m r price =
     (if r \<notin> set (players (team m)) then Raised ValueError m
      else case remove_player (team m) r of
             Raised e t1 \<Rightarrow> Raised e (m\<lparr> team := t1 \<rparr>)
           | Done t1 \<Rightarrow> Done (m\<lparr> team := t1, budget := budget m + price \<rparr>))"

subsection \<open>Persistence\<close>

text \<open>
  The JSON document written by \<^verbatim>\<open>save_team_to_file\<close>, as the dictionary the code builds.
  \<^verbatim>\<open>json.dump\<close> followed by \<^verbatim>\<open>json.load\<close> gives back an equal dictionary for strings,
  integers and booleans, so a file's content is the document itself.
\<close>

record player_doc =
  doc_name :: string
  doc_position :: string
  doc_age :: int
  doc_rating :: int
  doc_stamina :: int
  doc_injured :: bool

record team_doc =
  doc_team_name :: string
  doc_players :: "player_doc list"

type_synonym files = "string \<rightharpoonup> team_doc"

text \<open>\<^verbatim>\<open>position.name\<close> and \<^verbatim>\<open>Position[...]\<close> of the enum.\<close>

fun position_name :: "position \<Rightarrow> string" where
  "position_name GOALKEEPER = ''GOALKEEPER''"
| "position_name DEFENDER = ''DEFENDER''"
| "position_name MIDFIELDER = ''MIDFIELDER''"
| "position_name FORWARD = ''FORWARD''"

definition Position_of_name :: "string \<Rightarrow> error + position" where
  "Position_of_name s =
     (if s = ''GOALKEEPER'' then Inr GOALKEEPER
      else if s = ''DEFENDER'' then Inr DEFENDER
      else if s = ''MIDFIELDER'' then Inr MIDFIELDER
      else if s = ''FORWARD'' then Inr FORWARD
      else Inl KeyError)"

definition player_to_doc :: "player \<Rightarrow> player_doc" where
  "player_to_doc p =
     \<lparr> doc_name = name p, doc_position = position_name (position p), doc_age = age p,
       doc_rating = overall_rating p, doc_stamina = stamina p, doc_injured = injured p \<rparr>"

definition save_team_to_file :: "manager \<Rightarrow> string \<Rightarrow> heap \<Rightarrow> files \<Rightarrow> files" where
  "save_team_to_file m filename h fs =
     fs(filename \<mapsto>
        \<lparr> doc_team_name = team_name (team m),
          doc_players = map (\<lambda>r. player_to_doc (cells h r)) (players (team m)) \<rparr>)"

text \<open>
  The loop of \<^verbatim>\<open>load_team_from_file\<close>: each record goes through the \<^verbatim>\<open>Player\<close>
  constructor (which validates age and rating), gets its stamina and injury flag
  assigned, and is added to the team being built. The new objects live in the store.
\<close>

fun load_players :: "player_doc list \<Rightarrow> team \<Rightarrow> heap \<Rightarrow> (error + team) \<times> heap" where
  "load_players [] t h = (Inr t, h)"
| "load_players (d # ds) t h =
     (case Position_of_name (doc_position d) of
        Inl e \<Rightarrow> (Inl e, h)
      | Inr pos \<Rightarrow>
         (case Player (doc_name d) pos (doc_age d) (doc_rating d) of
            Inl e \<Rightarrow> (Inl e, h)
          | Inr p \<Rightarrow>
             (let p1 = p\<lparr> stamina := doc_stamina d, injured := doc_injured d \<rparr>;
                  (r, h1) = alloc h p1
              in case add_player t r h1 of
                   Raised e t1 \<Rightarrow> (Inl e, h1)
                 | Done t1 \<Rightarrow> load_players ds t1 h1)))"

definition load_team_from_file ::
  "manager \<Rightarrow> string \<Rightarrow> heap \<Rightarrow> files \<Rightarrow> (error + team) \<times> heap" where
  "load_team_from_file m filename h fs =
     (case fs filename of
        None \<Rightarrow> (Inl FileNotFoundError, h)
      | Some data \<Rightarrow> load_players (doc_players data) (Team (doc_team_name data)) h)"

section \<open>Ranking order and example objects\<close>

text \<open>
  \<open>ranks_below a b\<close>: team \<open>a\<close> does not stand above team \<open>b\<close> in the table, that is, it
  has fewer points, or the same points and a goal difference that is not larger. Both teams
  must carry a \<open>points\<close> value.
\<close>

definition ranks_below :: "team \<Rightarrow> team \<Rightarrow> bool" where
  "ranks_below a b =
     (case points a of
        None \<Rightarrow> False
      | Some pa \<Rightarrow>
         (case points b of
            None \<Rightarrow> False
          | Some pb \<Rightarrow> pa < pb \<or> (pa = pb \<and> goal_diff a \<le> goal_diff b)))"

text \<open>
  What a player looks like after a save and a reload: a player built by the constructor
  from the saved name, position, age and rating, with the saved stamina and injury flag
  assigned afterwards. Every other field has the constructor's value.
\<close>

definition reloaded :: "player \<Rightarrow> player" where
  "reloaded q =
     (new_player (name q) (position q) (age q) (overall_rating q))
       \<lparr> stamina := stamina q, injured := injured q \<rparr>"

text \<open>
  A store of five players used in the examples below: three active players, a veteran who
  was constructed at 40 and has been through \<^verbatim>\<open>check_retirement\<close>, and a goalkeeper who was
  constructed at 50 and has had one \<^verbatim>\<open>age_up\<close>.
\<close>

definition squad :: heap where
  "squad =
     \<lparr> cells = (\<lambda>r. new_player ''Nobody'' GOALKEEPER 15 0)
         (0 := (new_player ''Ana'' FORWARD 25 80)\<lparr> goals := 3, assists := 9, matches_played := 12 \<rparr>,
          1 := (new_player ''Bea'' MIDFIELDER 30 90)\<lparr> goals := 7, assists := 9, matches_played := 10 \<rparr>,
          2 := (new_player ''Cyd'' DEFENDER 28 90)\<lparr> goals := 7, assists := 2, matches_played := 12 \<rparr>,
          3 := check_retirement (new_player ''Vet'' DEFENDER 40 70),
          4 := age_up (new_player ''Old'' GOALKEEPER 50 60)),
       fresh = 5 \<rparr>"

definition club :: team where
  "club = (Team ''FC Example'')\<lparr> players := [0, 1, 2] \<rparr>"

text \<open>Four teams of a league table, with \<open>points\<close> assigned from outside as the tests do.\<close>

definition table :: "ref \<Rightarrow> team" where
  "table =
     (\<lambda>r. Team ''Nowhere'')
       (0 := (Team ''Brighton'')\<lparr> points := Some 10, goals_scored := 12, goals_conceded := 5 \<rparr>,
        1 := (Team ''Newcastle'')\<lparr> points := Some 10, goals_scored := 15, goals_conceded := 3 \<rparr>,
        2 := (Team ''Everton'')\<lparr> points := Some 8, goals_scored := 5, goals_conceded := 8 \<rparr>,
        3 := (Team ''Sheffield United'')\<lparr> points := Some 8, goals_scored := 3, goals_conceded := 8 \<rparr>)"

section \<open>Player: construction\<close>

lemma Player_Inr_iff:
  "(\<exists>p. Player nm pos a r = Inr p) \<longleftrightarrow> 15 \<le> a \<and> a \<le> 50 \<and> 0 \<le> r \<and> r \<le> 100"
  by (auto simp: Player_def)

lemma Player_Inl_iff:
  "Player nm pos a r = Inl ValueError \<longleftrightarrow> \<not> (15 \<le> a \<and> a \<le> 50 \<and> 0 \<le> r \<and> r \<le> 100)"
  by (auto simp: Player_def)

lemma Player_fields:
  assumes "Player nm pos a r = Inr p"
  shows "p = \<lparr> name = nm, position = pos, age = a, overall_rating = r,
               stamina = 100, injured = False, is_captain = False,
               goals = 0, assists = 0, matches_played = 0,
               yellow_cards = 0, red_cards = 0, suspended = False,
               contract_years_left = 3, morale = 70, retired = False,
               on_loan = False, loaned_to = None, loan_duration = 0 \<rparr>"
  using assms by (auto simp: Player_def new_player_def split: if_splits)

text \<open>
  C5. Constructing a player succeeds exactly when the age is in 15..50 and the rating in
  0..100, and fails with a \<^verbatim>\<open>ValueError\<close> otherwise. A successfully constructed player
  has stamina 100, morale 70, three contract years, every counter 0 and every flag false.
\<close>

theorem Player_construct:
  "((\<exists>p. Player nm pos a r = Inr p) \<longleftrightarrow> 15 \<le> a \<and> a \<le> 50 \<and> 0 \<le> r \<and> r \<le> 100)
   \<and> (Player nm pos a r = Inl ValueError \<longleftrightarrow> \<not> (15 \<le> a \<and> a \<le> 50 \<and> 0 \<le> r \<and> r \<le> 100))
   \<and> (\<forall>p. Player nm pos a r = Inr p \<longrightarrow>
         name p = nm \<and> position p = pos \<and> age p = a \<and> overall_rating p = r
         \<and> stamina p = 100 \<and> morale p = 70 \<and> contract_years_left p = 3
         \<and> goals p = 0 \<and> assists p = 0 \<and> matches_played p = 0
         \<and> yellow_cards p = 0 \<and> red_cards p = 0 \<and> loan_duration p = 0
         \<and> \<not> injured p \<and> \<not> is_captain p \<and> \<not> suspended p \<and> \<not> retired p
         \<and> \<not> on_loan p \<and> loaned_to p = None)"
proof -
  have fields: "\<forall>p. Player nm pos a r = Inr p \<longrightarrow>
         name p = nm \<and> position p = pos \<and> age p = a \<and> overall_rating p = r
         \<and> stamina p = 100 \<and> morale p = 70 \<and> contract_years_left p = 3
         \<and> goals p = 0 \<and> assists p = 0 \<and> matches_played p = 0
         \<and> yellow_cards p = 0 \<and> red_cards p = 0 \<and> loan_duration p = 0
         \<and> \<not> injured p \<and> \<not> is_captain p \<and> \<not> suspended p \<and> \<not> retired p
         \<and> \<not> on_loan p \<and> loaned_to p = None"
  proof (rule allI, rule impI)
    fix p assume "Player nm pos a r = Inr p"
    from Player_fields [OF this]
    show "name p = nm \<and> position p = pos \<and> age p = a \<and> overall_rating p = r
         \<and> stamina p = 100 \<and> morale p = 70 \<and> contract_years_left p = 3
         \<and> goals p = 0 \<and> assists p = 0 \<and> matches_played p = 0
         \<and> yellow_cards p = 0 \<and> red_cards p = 0 \<and> loan_duration p = 0
         \<and> \<not> injured p \<and> \<not> is_captain p \<and> \<not> suspended p \<and> \<not> retired p
         \<and> \<not> on_loan p \<and> loaned_to p = None"
      by simp
  qed
  from Player_Inr_iff [of nm pos a r] Player_Inl_iff [of nm pos a r] fields
  show ?thesis by blast
qed

theorem Player_construct_witness:
  "(\<exists>p. Player ''Martin Odegaard'' MIDFIELDER 25 86 = Inr p \<and> stamina p = 100 \<and> morale p = 70
        \<and> contract_years_left p = 3 \<and> goals p = 0 \<and> \<not> injured p)
   \<and> Player ''Too Young'' MIDFIELDER 14 86 = Inl ValueError
   \<and> Player ''Too Good'' FORWARD 25 101 = Inl ValueError"
proof -
  have a: "15 \<le> (25::int) \<and> (25::int) \<le> 50 \<and> 0 \<le> (86::int) \<and> (86::int) \<le> 100" by simp
  have b: "\<not> (15 \<le> (14::int) \<and> (14::int) \<le> 50 \<and> 0 \<le> (86::int) \<and> (86::int) \<le> 100)" by simp
  have c: "\<not> (15 \<le> (25::int) \<and> (25::int) \<le> 50 \<and> 0 \<le> (101::int) \<and> (101::int) \<le> 100)" by simp
  from a Player_construct [of "''Martin Odegaard''" MIDFIELDER 25 86]
  have "\<exists>p. Player ''Martin Odegaard'' MIDFIELDER 25 86 = Inr p \<and> stamina p = 100 \<and> morale p = 70
        \<and> contract_years_left p = 3 \<and> goals p = 0 \<and> \<not> injured p" by blast
  moreover from b Player_construct [of "''Too Young''" MIDFIELDER 14 86]
  have "Player ''Too Young'' MIDFIELDER 14 86 = Inl ValueError" by blast
  moreover from c Player_construct [of "''Too Good''" FORWARD 25 101]
  have "Player ''Too Good'' FORWARD 25 101 = Inl ValueError" by blast
  ultimately show ?thesis by blast
qed

section \<open>Player: cards\<close>

lemma receive_card_yellow_twice:
  assumes "Player nm pos a r = Inr p"
  shows "\<exists>p1 p2. receive_card p (PyStr ''yellow'') = Done p1
           \<and> receive_card p1 (PyStr ''yellow'') = Done p2
           \<and> yellow_cards p2 = 0 \<and> red_cards p2 = 1 \<and> suspended p2"
  using Player_fields [OF assms] by (simp add: receive_card_def Let_def)

lemma receive_card_red:
  "receive_card q (PyStr ''red'') = Done (q\<lparr> red_cards := red_cards q + 1, suspended := True \<rparr>)"
  by (simp add: receive_card_def)

lemma receive_card_other:
  "c \<noteq> PyStr ''yellow'' \<Longrightarrow> c \<noteq> PyStr ''red'' \<Longrightarrow> receive_card q c = Raised ValueError q"
  by (simp add: receive_card_def)

text \<open>
  C4. On a freshly constructed player two yellow cards in a row both return, and leave
  \<open>yellow_cards = 0\<close>, \<open>red_cards = 1\<close> and the player suspended. On any player a red card
  adds one to \<open>red_cards\<close> and sets \<open>suspended\<close>, changing nothing else. Any argument other
  than \<^verbatim>\<open>"yellow"\<close> or \<^verbatim>\<open>"red"\<close> raises \<^verbatim>\<open>ValueError\<close> and leaves the player as it was.
\<close>

theorem receive_card_spec:
  "(Player nm pos a r = Inr p \<longrightarrow>
      (\<exists>p1 p2. receive_card p (PyStr ''yellow'') = Done p1
           \<and> receive_card p1 (PyStr ''yellow'') = Done p2
           \<and> yellow_cards p2 = 0 \<and> red_cards p2 = 1 \<and> suspended p2))
   \<and> receive_card q (PyStr ''red'')
       = Done (q\<lparr> red_cards := red_cards q + 1, suspended := True \<rparr>)
   \<and> (c \<noteq> PyStr ''yellow'' \<and> c \<noteq> PyStr ''red'' \<longrightarrow> receive_card q c = Raised ValueError q)"
  using receive_card_yellow_twice [of nm pos a r p] receive_card_red [of q]
    receive_card_other [of c q] by blast

theorem receive_card_spec_witness:
  "\<exists>p p2. Player ''Fresh'' DEFENDER 20 70 = Inr p
      \<and> receive_card (state_of (receive_card p (PyStr ''yellow''))) (PyStr ''yellow'') = Done p2
      \<and> yellow_cards p2 = 0 \<and> red_cards p2 = 1 \<and> suspended p2
      \<and> receive_card p (PyStr ''blue'') = Raised ValueError p"
proof -
  obtain p where p: "Player ''Fresh'' DEFENDER 20 70 = Inr p"
    by (simp add: Player_def)
  have ne: "PyStr ''blue'' \<noteq> PyStr ''yellow'' \<and> PyStr ''blue'' \<noteq> PyStr ''red''"
    by simp
  from p ne receive_card_spec [of "''Fresh''" DEFENDER 20 70 p p "PyStr ''blue''"]
  obtain p1 p2 where "receive_card p (PyStr ''yellow'') = Done p1"
     "receive_card p1 (PyStr ''yellow'') = Done p2" "yellow_cards p2 = 0" "red_cards p2 = 1" "suspended p2"
     and r: "receive_card p (PyStr ''blue'') = Raised ValueError p"
    by blast
  then have "receive_card (state_of (receive_card p (PyStr ''yellow''))) (PyStr ''yellow'') = Done p2
      \<and> yellow_cards p2 = 0 \<and> red_cards p2 = 1 \<and> suspended p2" by simp
  with p r show ?thesis by blast
qed

section \<open>Player: stamina, morale and rating stay in range\<close>

lemma call_in_bounds: "in_bounds p \<Longrightarrow> in_bounds (state_of (call p c))"
  by (cases c)
     (auto simp: in_bounds_def train_def rest_def injure_def recover_from_injury_def age_up_def
        change_position_def promote_to_captain_def demote_from_captain_def record_match_def
        receive_card_def reset_cards_def renew_contract_def decrement_contract_def
        change_morale_def check_retirement_def loan_to_def return_from_loan_def
        reduce_loan_duration_def Let_def split: pyval.splits)

lemma calls_in_bounds: "in_bounds p \<Longrightarrow> in_bounds (calls p cs)"
  by (induction cs arbitrary: p) (simp_all add: call_in_bounds)

lemma Player_in_bounds: "Player nm pos a r = Inr p \<Longrightarrow> in_bounds p"
  by (auto simp: Player_def new_player_def in_bounds_def split: if_splits)

lemma train_pow_bounds:
  "overall_rating p \<le> 100 \<Longrightarrow> 0 \<le> stamina p \<Longrightarrow>
   overall_rating ((train ^^ k) p) \<le> 100 \<and> 0 \<le> stamina ((train ^^ k) p)"
  by (induction k) (auto simp: train_def)

text \<open>
  C6. Starting from a validly constructed player, after every call of every finite sequence
  of Player method calls (a call that raises leaves the player in place and the sequence
  carries on) stamina and morale are within 0..100. In particular any number of
  \<^verbatim>\<open>train()\<close> calls leaves the rating at most 100 and the stamina at least 0.
\<close>

theorem player_calls_keep_bounds:
  assumes "Player nm pos a r = Inr p"
  shows "(\<forall>n \<le> length cs.
            0 \<le> stamina (calls p (take n cs)) \<and> stamina (calls p (take n cs)) \<le> 100
          \<and> 0 \<le> morale (calls p (take n cs)) \<and> morale (calls p (take n cs)) \<le> 100)
       \<and> overall_rating ((train ^^ k) p) \<le> 100 \<and> 0 \<le> stamina ((train ^^ k) p)"
proof -
  have b: "in_bounds p" using assms by (rule Player_in_bounds)
  have "in_bounds (calls p (take n cs))" for n using b by (rule calls_in_bounds)
  then have 1: "\<forall>n \<le> length cs.
            0 \<le> stamina (calls p (take n cs)) \<and> stamina (calls p (take n cs)) \<le> 100
          \<and> 0 \<le> morale (calls p (take n cs)) \<and> morale (calls p (take n cs)) \<le> 100"
    unfolding in_bounds_def by blast
  have 2: "overall_rating ((train ^^ k) p) \<le> 100 \<and> 0 \<le> stamina ((train ^^ k) p)"
    using b unfolding in_bounds_def by (intro train_pow_bounds) blast+
  from 1 2 show ?thesis by blast
qed

theorem player_calls_keep_bounds_witness:
  "\<exists>p. Player ''Keen'' FORWARD 25 99 = Inr p
     \<and> stamina (calls p [Train, Rest, ChangeMorale (PyInt 500)]) \<le> 100
     \<and> morale (calls p [Train, Rest, ChangeMorale (PyInt 500)]) \<le> 100
     \<and> overall_rating ((train ^^ 12) p) \<le> 100 \<and> 0 \<le> stamina ((train ^^ 12) p)"
proof -
  obtain p where p: "Player ''Keen'' FORWARD 25 99 = Inr p"
    by (simp add: Player_def)
  let ?cs = "[Train, Rest, ChangeMorale (PyInt 500)]"
  have l: "(3::nat) \<le> length ?cs" by simp
  have t: "take 3 ?cs = ?cs" by simp
  from player_calls_keep_bounds [OF p, of ?cs 12] l
  have "stamina (calls p (take 3 ?cs)) \<le> 100 \<and> morale (calls p (take 3 ?cs)) \<le> 100
        \<and> overall_rating ((train ^^ 12) p) \<le> 100 \<and> 0 \<le> stamina ((train ^^ 12) p)"
    by blast
  then have "stamina (calls p ?cs) \<le> 100 \<and> morale (calls p ?cs) \<le> 100
        \<and> overall_rating ((train ^^ 12) p) \<le> 100 \<and> 0 \<le> stamina ((train ^^ 12) p)"
    unfolding t .
  with p show ?thesis by blast
qed

section \<open>Team: starting eleven\<close>

lemma first_not_in_team_None:
  "first_not_in_team ps roster = None \<longleftrightarrow> set ps \<subseteq> set roster"
  by (induction ps) auto

lemma assign_starting_eleven_fails:
  "length ps \<noteq> 11 \<or> \<not> set ps \<subseteq> set (players t) \<Longrightarrow>
     assign_starting_eleven t ps = Raised ValueError t"
  using first_not_in_team_None [of ps "players t"]
  by (auto simp: assign_starting_eleven_def split: option.splits)

lemma assign_starting_eleven_succeeds:
  "length ps = 11 \<Longrightarrow> set ps \<subseteq> set (players t) \<Longrightarrow>
     assign_starting_eleven t ps = Done (t\<lparr> starting_eleven := ps \<rparr>)"
  using first_not_in_team_None [of ps "players t"]
  by (auto simp: assign_starting_eleven_def split: option.splits)

text \<open>
  C8. \<^verbatim>\<open>assign_starting_eleven\<close> raises \<^verbatim>\<open>ValueError\<close>, leaving the team as it was, when the
  list does not have exactly 11 entries or some entry is not on the roster. Otherwise it
  returns with \<open>starting_eleven\<close> replaced by the given list and every other field,
  the bench and the roster among them, unchanged.
\<close>

theorem assign_starting_eleven_spec:
  "(length ps \<noteq> 11 \<or> \<not> set ps \<subseteq> set (players t) \<longrightarrow>
       assign_starting_eleven t ps = Raised ValueError t)
   \<and> (length ps = 11 \<and> set ps \<subseteq> set (players t) \<longrightarrow>
       assign_starting_eleven t ps = Done (t\<lparr> starting_eleven := ps \<rparr>)
       \<and> bench (state_of (assign_starting_eleven t ps)) = bench t
       \<and> players (state_of (assign_starting_eleven t ps)) = players t)"
  using assign_starting_eleven_fails [of ps t] assign_starting_eleven_succeeds [of ps t]
  by auto

theorem assign_starting_eleven_spec_witness:
  "assign_starting_eleven ((Team ''FC'')\<lparr> players := [0,1,2,3,4,5,6,7,8,9,10,11], bench := [11] \<rparr>)
       [0,1,2,3,4,5,6,7,8,9,10]
     = Done ((Team ''FC'')\<lparr> players := [0,1,2,3,4,5,6,7,8,9,10,11], bench := [11],
                              starting_eleven := [0,1,2,3,4,5,6,7,8,9,10] \<rparr>)
   \<and> assign_starting_eleven ((Team ''FC'')\<lparr> players := [0,1,2,3,4,5,6,7,8,9,10,11], bench := [11] \<rparr>)
       [0,1,2,3,4,5,6,7,8,9]
     = Raised ValueError ((Team ''FC'')\<lparr> players := [0,1,2,3,4,5,6,7,8,9,10,11], bench := [11] \<rparr>)
   \<and> assign_starting_eleven ((Team ''FC'')\<lparr> players := [0,1,2,3,4,5,6,7,8,9,10,11], bench := [11] \<rparr>)
       [0,1,2,3,4,5,6,7,8,9,42]
     = Raised ValueError ((Team ''FC'')\<lparr> players := [0,1,2,3,4,5,6,7,8,9,10,11], bench := [11] \<rparr>)"
proof -
  let ?t = "(Team ''FC'')\<lparr> players := [0,1,2,3,4,5,6,7,8,9,10,11], bench := [11] \<rparr>"
  have a: "length [0,1,2,3,4,5,6,7,8,9,10::nat] = 11
           \<and> set [0,1,2,3,4,5,6,7,8,9,10::nat] \<subseteq> set (players ?t)" by simp
  have b: "length [0,1,2,3,4,5,6,7,8,9::nat] \<noteq> 11" by simp
  have c: "\<not> set [0,1,2,3,4,5,6,7,8,9,42::nat] \<subseteq> set (players ?t)" by simp
  from a assign_starting_eleven_spec [of "[0,1,2,3,4,5,6,7,8,9,10]" ?t]
  have 1: "assign_starting_eleven ?t [0,1,2,3,4,5,6,7,8,9,10]
            = Done (?t\<lparr> starting_eleven := [0,1,2,3,4,5,6,7,8,9,10] \<rparr>)" by blast
  from b assign_starting_eleven_spec [of "[0,1,2,3,4,5,6,7,8,9]" ?t]
  have 2: "assign_starting_eleven ?t [0,1,2,3,4,5,6,7,8,9] = Raised ValueError ?t" by blast
  from c assign_starting_eleven_spec [of "[0,1,2,3,4,5,6,7,8,9,42]" ?t]
  have 3: "assign_starting_eleven ?t [0,1,2,3,4,5,6,7,8,9,42] = Raised ValueError ?t" by blast
  from 1 2 3 show ?thesis by simp
qed

section \<open>Team: best player, top scorer, top assistant, most active\<close>

lemma scan_first_max:
  "\<exists>xs r ys. b # ps = xs @ r # ys \<and> scan f b ps = r
      \<and> (\<forall>x\<in>set xs. f x < f r) \<and> (\<forall>y\<in>set ys. f y \<le> f r)"
proof (induction ps arbitrary: b)
  case Nil
  have "[b] = [] @ b # [] \<and> scan f b [] = b
      \<and> (\<forall>x\<in>set []. f x < f b) \<and> (\<forall>y\<in>set []. f y \<le> f b)" by simp
  then show ?case by blast
next
  case (Cons p ps)
  show ?case
  proof (cases "f p > f b")
    case True
    from Cons.IH [of p] obtain xs r ys where
      s: "p # ps = xs @ r # ys" and r: "scan f p ps = r"
      and lt: "\<forall>x\<in>set xs. f x < f r" and le: "\<forall>y\<in>set ys. f y \<le> f r" by blast
    have "f p \<le> f r" using s lt by (cases xs) auto
    with True have br: "f b < f r" by simp
    have sc: "scan f b (p # ps) = r" using True r by simp
    have sp: "b # p # ps = (b # xs) @ r # ys" using s by simp
    have "\<forall>x\<in>set (b # xs). f x < f r" using br lt by simp
    with sp sc le show ?thesis by blast
  next
    case False
    from Cons.IH [of b] obtain xs r ys where
      s: "b # ps = xs @ r # ys" and r: "scan f b ps = r"
      and lt: "\<forall>x\<in>set xs. f x < f r" and le: "\<forall>y\<in>set ys. f y \<le> f r" by blast
    have sc: "scan f b (p # ps) = r" using False r by simp
    show ?thesis
    proof (cases xs)
      case Nil
      with s have rb: "r = b" and ys: "ys = ps" by simp_all
      have sp: "b # p # ps = [] @ r # (p # ys)" using rb ys by simp
      have "\<forall>y\<in>set (p # ys). f y \<le> f r" using le False rb by simp
      moreover have "\<forall>x\<in>set ([]::nat list). f x < f r" by simp
      ultimately show ?thesis using sp sc by blast
    next
      case (Cons x xs')
      with s have x: "x = b" and ps: "ps = xs' @ r # ys" by simp_all
      from lt Cons x have "f b < f r" by simp
      with False have pr: "f p < f r" by simp
      have sp: "b # p # ps = (b # p # xs') @ r # ys" using ps by simp
      have "\<forall>x\<in>set (b # p # xs'). f x < f r" using lt Cons x pr by simp
      with sp sc le show ?thesis by blast
    qed
  qed
qed


lemma best_of_roster:
  assumes "players t \<noteq> []"
  shows "\<exists>xs r ys. (case players t of [] \<Rightarrow> None | p0 # ps \<Rightarrow> Some (scan f p0 ps)) = Some r
           \<and> players t = xs @ r # ys
           \<and> (\<forall>x\<in>set xs. f x < f r) \<and> (\<forall>y\<in>set ys. f y \<le> f r)"
proof -
  from assms obtain p0 ps where l: "players t = p0 # ps" by (cases "players t") auto
  from scan_first_max [of p0 ps f] obtain xs r ys where
    s: "p0 # ps = xs @ r # ys" and r: "scan f p0 ps = r"
    and lt: "\<forall>x\<in>set xs. f x < f r" and le: "\<forall>y\<in>set ys. f y \<le> f r" by blast
  have 1: "(case players t of [] \<Rightarrow> None | p0 # ps \<Rightarrow> Some (scan f p0 ps)) = Some r"
    using l r by simp
  have 2: "players t = xs @ r # ys" using l s by simp
  from 1 2 lt le show ?thesis by blast
qed

text \<open>
  C9. On an empty roster the four methods return \<^verbatim>\<open>None\<close>. On a non-empty roster each
  returns a player \<open>r\<close> at a position of the roster such that every player before that
  position has a strictly smaller value of the statistic and every player after it has a
  value that is not larger: the earliest player among those with the maximum.
\<close>

theorem roster_best_is_first_maximum:
  "(players t = [] \<longrightarrow>
      get_best_player t h = None \<and> get_top_scorer t h = None
      \<and> get_top_assistant t h = None \<and> get_most_active_player t h = None)
   \<and> (players t \<noteq> [] \<longrightarrow>
      (\<exists>xs r ys. get_best_player t h = Some r \<and> players t = xs @ r # ys
          \<and> (\<forall>x\<in>set xs. overall_rating (cells h x) < overall_rating (cells h r))
          \<and> (\<forall>y\<in>set ys. overall_rating (cells h y) \<le> overall_rating (cells h r)))
      \<and> (\<exists>xs r ys. get_top_scorer t h = Some r \<and> players t = xs @ r # ys
          \<and> (\<forall>x\<in>set xs. goals (cells h x) < goals (cells h r))
          \<and> (\<forall>y\<in>set ys. goals (cells h y) \<le> goals (cells h r)))
      \<and> (\<exists>xs r ys. get_top_assistant t h = Some r \<and> players t = xs @ r # ys
          \<and> (\<forall>x\<in>set xs. assists (cells h x) < assists (cells h r))
          \<and> (\<forall>y\<in>set ys. assists (cells h y) \<le> assists (cells h r)))
      \<and> (\<exists>xs r ys. get_most_active_player t h = Some r \<and> players t = xs @ r # ys
          \<and> (\<forall>x\<in>set xs. matches_played (cells h x) < matches_played (cells h r))
          \<and> (\<forall>y\<in>set ys. matches_played (cells h y) \<le> matches_played (cells h r))))"
proof -
  have e: "players t = [] \<longrightarrow>
      get_best_player t h = None \<and> get_top_scorer t h = None
      \<and> get_top_assistant t h = None \<and> get_most_active_player t h = None"
    by (simp add: get_best_player_def get_top_scorer_def get_top_assistant_def
          get_most_active_player_def)
  have ne: "(\<exists>xs r ys. get_best_player t h = Some r \<and> players t = xs @ r # ys
          \<and> (\<forall>x\<in>set xs. overall_rating (cells h x) < overall_rating (cells h r))
          \<and> (\<forall>y\<in>set ys. overall_rating (cells h y) \<le> overall_rating (cells h r)))
      \<and> (\<exists>xs r ys. get_top_scorer t h = Some r \<and> players t = xs @ r # ys
          \<and> (\<forall>x\<in>set xs. goals (cells h x) < goals (cells h r))
          \<and> (\<forall>y\<in>set ys. goals (cells h y) \<le> goals (cells h r)))
      \<and> (\<exists>xs r ys. get_top_assistant t h = Some r \<and> players t = xs @ r # ys
          \<and> (\<forall>x\<in>set xs. assists (cells h x) < assists (cells h r))
          \<and> (\<forall>y\<in>set ys. assists (cells h y) \<le> assists (cells h r)))
      \<and> (\<exists>xs r ys. get_most_active_player t h = Some r \<and> players t = xs @ r # ys
          \<and> (\<forall>x\<in>set xs. matches_played (cells h x) < matches_played (cells h r))
          \<and> (\<forall>y\<in>set ys. matches_played (cells h y) \<le> matches_played (cells h r)))"
    if "players t \<noteq> []"
    unfolding get_best_player_def get_top_scorer_def get_top_assistant_def
      get_most_active_player_def
    using best_of_roster [OF that, of "\<lambda>r. overall_rating (cells h r)"]
      best_of_roster [OF that, of "\<lambda>r. goals (cells h r)"]
      best_of_roster [OF that, of "\<lambda>r. assists (cells h r)"]
      best_of_roster [OF that, of "\<lambda>r. matches_played (cells h r)"]
    by (intro conjI) assumption+
  from e ne show ?thesis by blast
qed

lemma club_values:
  "get_best_player club squad = Some 1 \<and> get_top_scorer club squad = Some 1
   \<and> get_top_assistant club squad = Some 0 \<and> get_most_active_player club squad = Some 0
   \<and> get_best_player (Team ''Empty FC'') squad = None"
  by (simp add: get_best_player_def get_top_scorer_def get_top_assistant_def
        get_most_active_player_def club_def squad_def Team_def new_player_def)


theorem roster_best_is_first_maximum_witness:
  "players club \<noteq> [] \<and> get_best_player club squad = Some 1
   \<and> (\<exists>xs ys. players club = xs @ 1 # ys
         \<and> (\<forall>x\<in>set xs. overall_rating (cells squad x) < overall_rating (cells squad 1))
         \<and> (\<forall>y\<in>set ys. overall_rating (cells squad y) \<le> overall_rating (cells squad 1)))
   \<and> players (Team ''Empty FC'') = [] \<and> get_top_scorer (Team ''Empty FC'') squad = None"
proof -
  have ne: "players club \<noteq> []" by (simp add: club_def)
  have em: "players (Team ''Empty FC'') = []" by (simp add: Team_def)
  from ne roster_best_is_first_maximum [of club squad] obtain xs r ys where
    r: "get_best_player club squad = Some r" and s: "players club = xs @ r # ys"
    and lt: "\<forall>x\<in>set xs. overall_rating (cells squad x) < overall_rating (cells squad r)"
    and le: "\<forall>y\<in>set ys. overall_rating (cells squad y) \<le> overall_rating (cells squad r)"
    by blast
  from r club_values have "r = 1" by simp
  with r s lt le have "get_best_player club squad = Some 1
   \<and> (\<exists>xs ys. players club = xs @ 1 # ys
         \<and> (\<forall>x\<in>set xs. overall_rating (cells squad x) < overall_rating (cells squad 1))
         \<and> (\<forall>y\<in>set ys. overall_rating (cells squad y) \<le> overall_rating (cells squad 1)))"
    by blast
  moreover from em roster_best_is_first_maximum [of "Team ''Empty FC''" squad]
  have "get_top_scorer (Team ''Empty FC'') squad = None" by blast
  ultimately show ?thesis using ne em by blast
qed

section \<open>League: top and bottom of the table\<close>

lemma ranks_below_refl: "points a \<noteq> None \<Longrightarrow> ranks_below a a"
  by (auto simp: ranks_below_def split: option.splits)

lemma ranks_below_trans: "ranks_below a b \<Longrightarrow> ranks_below b c \<Longrightarrow> ranks_below a c"
  by (auto simp: ranks_below_def split: option.splits)

lemma top_scan_step:
  assumes "points (ts t) \<noteq> None" "points (ts b) \<noteq> None"
  shows "(top_scan ts b (t # l) = top_scan ts t l \<and> ranks_below (ts b) (ts t))
       \<or> (top_scan ts b (t # l) = top_scan ts b l \<and> ranks_below (ts t) (ts b))"
proof -
  from assms obtain pt pb where p: "points (ts t) = Some pt" "points (ts b) = Some pb"
    by auto
  show ?thesis
  proof (cases "pt > pb")
    case True
    with p show ?thesis by (simp add: ranks_below_def)
  next
    case False
    show ?thesis
    proof (cases "pt = pb \<and> goal_diff (ts t) > goal_diff (ts b)")
      case True
      with p show ?thesis by (simp add: ranks_below_def goal_diff_def)
    next
      case False
      with p \<open>\<not> pt > pb\<close> show ?thesis
        by (auto simp add: ranks_below_def goal_diff_def)
    qed
  qed
qed

lemma top_scan_max:
  assumes "\<forall>t\<in>set (b # l). points (ts t) \<noteq> None"
  shows "\<exists>r. top_scan ts b l = Inr r \<and> r \<in> set (b # l)
           \<and> (\<forall>t\<in>set (b # l). ranks_below (ts t) (ts r))"
  using assms
proof (induction l arbitrary: b)
  case Nil
  then show ?case by (simp add: ranks_below_refl)
next
  case (Cons t l)
  have pt: "points (ts t) \<noteq> None" and pb: "points (ts b) \<noteq> None"
    and rest: "\<forall>x\<in>set l. points (ts x) \<noteq> None"
    using Cons.prems by simp_all
  from top_scan_step [OF pt pb, of l] show ?case
  proof
    assume a: "top_scan ts b (t # l) = top_scan ts t l \<and> ranks_below (ts b) (ts t)"
    from Cons.IH [of t] pt rest obtain r where
      r: "top_scan ts t l = Inr r" "r \<in> set (t # l)"
         "\<forall>x\<in>set (t # l). ranks_below (ts x) (ts r)" by auto
    from a r have "ranks_below (ts b) (ts r)"
      by (meson list.set_intros(1) ranks_below_trans)
    with a r show ?thesis by auto
  next
    assume a: "top_scan ts b (t # l) = top_scan ts b l \<and> ranks_below (ts t) (ts b)"
    from Cons.IH [of b] pb rest obtain r where
      r: "top_scan ts b l = Inr r" "r \<in> set (b # l)"
         "\<forall>x\<in>set (b # l). ranks_below (ts x) (ts r)" by auto
    from a r have "ranks_below (ts t) (ts r)"
      by (meson list.set_intros(1) ranks_below_trans)
    with a r show ?thesis by auto
  qed
qed

lemma bottom_scan_step:
  assumes "points (ts t) \<noteq> None" "points (ts b) \<noteq> None"
  shows "(bottom_scan ts b (t # l) = bottom_scan ts t l \<and> ranks_below (ts t) (ts b))
       \<or> (bottom_scan ts b (t # l) = bottom_scan ts b l \<and> ranks_below (ts b) (ts t))"
proof -
  from assms obtain pt pb where p: "points (ts t) = Some pt" "points (ts b) = Some pb"
    by auto
  show ?thesis
  proof (cases "pt < pb")
    case True
    with p show ?thesis by (simp add: ranks_below_def)
  next
    case False
    show ?thesis
    proof (cases "pt = pb \<and> goal_diff (ts t) < goal_diff (ts b)")
      case True
      with p show ?thesis by (simp add: ranks_below_def goal_diff_def)
    next
      case False
      with p \<open>\<not> pt < pb\<close> show ?thesis
        by (auto simp add: ranks_below_def goal_diff_def)
    qed
  qed
qed

lemma bottom_scan_min:
  assumes "\<forall>t\<in>set (b # l). points (ts t) \<noteq> None"
  shows "\<exists>r. bottom_scan ts b l = Inr r \<and> r \<in> set (b # l)
           \<and> (\<forall>t\<in>set (b # l). ranks_below (ts r) (ts t))"
  using assms
proof (induction l arbitrary: b)
  case Nil
  then show ?case by (simp add: ranks_below_refl)
next
  case (Cons t l)
  have pt: "points (ts t) \<noteq> None" and pb: "points (ts b) \<noteq> None"
    and rest: "\<forall>x\<in>set l. points (ts x) \<noteq> None"
    using Cons.prems by simp_all
  from bottom_scan_step [OF pt pb, of l] show ?case
  proof
    assume a: "bottom_scan ts b (t # l) = bottom_scan ts t l \<and> ranks_below (ts t) (ts b)"
    from Cons.IH [of t] pt rest obtain r where
      r: "bottom_scan ts t l = Inr r" "r \<in> set (t # l)"
         "\<forall>x\<in>set (t # l). ranks_below (ts r) (ts x)" by auto
    from a r have "ranks_below (ts r) (ts b)"
      by (meson list.set_intros(1) ranks_below_trans)
    with a r show ?thesis by auto
  next
    assume a: "bottom_scan ts b (t # l) = bottom_scan ts b l \<and> ranks_below (ts b) (ts t)"
    from Cons.IH [of b] pb rest obtain r where
      r: "bottom_scan ts b l = Inr r" "r \<in> set (b # l)"
         "\<forall>x\<in>set (b # l). ranks_below (ts r) (ts x)" by auto
    from a r have "ranks_below (ts r) (ts t)"
      by (meson list.set_intros(1) ranks_below_trans)
    with a r show ?thesis by auto
  qed
qed


text \<open>
  C3. On an empty league \<^verbatim>\<open>get_top_team\<close> and \<^verbatim>\<open>get_bottom_team\<close> return \<^verbatim>\<open>None\<close>. On a
  non-empty league whose teams all carry a \<open>points\<close> value, \<^verbatim>\<open>get_top_team\<close> returns a team
  of the league that no team stands above: every team has fewer points, or the same
  points and a goal difference (goals scored minus goals conceded) that is not larger.
  \<^verbatim>\<open>get_bottom_team\<close> returns a team of the league that no team stands below: every team
  has more points, or the same points and a goal difference that is not smaller.
\<close>

theorem top_and_bottom_team:
  "(teams lg = [] \<longrightarrow> get_top_team lg ts = Inr None \<and> get_bottom_team lg ts = Inr None)
   \<and> (teams lg \<noteq> [] \<and> (\<forall>t\<in>set (teams lg). points (ts t) \<noteq> None) \<longrightarrow>
        (\<exists>r\<in>set (teams lg). get_top_team lg ts = Inr (Some r)
            \<and> (\<forall>t\<in>set (teams lg). ranks_below (ts t) (ts r)))
      \<and> (\<exists>r\<in>set (teams lg). get_bottom_team lg ts = Inr (Some r)
            \<and> (\<forall>t\<in>set (teams lg). ranks_below (ts r) (ts t))))"
proof -
  have e: "teams lg = [] \<longrightarrow> get_top_team lg ts = Inr None \<and> get_bottom_team lg ts = Inr None"
    by (simp add: get_top_team_def get_bottom_team_def)
  have ne: "(\<exists>r\<in>set (teams lg). get_top_team lg ts = Inr (Some r)
            \<and> (\<forall>t\<in>set (teams lg). ranks_below (ts t) (ts r)))
      \<and> (\<exists>r\<in>set (teams lg). get_bottom_team lg ts = Inr (Some r)
            \<and> (\<forall>t\<in>set (teams lg). ranks_below (ts r) (ts t)))"
    if n: "teams lg \<noteq> []" and p: "\<forall>t\<in>set (teams lg). points (ts t) \<noteq> None"
  proof -
    from n obtain t0 l where l: "teams lg = t0 # l" by (cases "teams lg") auto
    from p l have p': "\<forall>t\<in>set (t0 # l). points (ts t) \<noteq> None" by simp
    from top_scan_max [OF p'] obtain r where
      "top_scan ts t0 l = Inr r" "r \<in> set (t0 # l)"
      "\<forall>t\<in>set (t0 # l). ranks_below (ts t) (ts r)" by blast
    then have top: "\<exists>r\<in>set (teams lg). get_top_team lg ts = Inr (Some r)
            \<and> (\<forall>t\<in>set (teams lg). ranks_below (ts t) (ts r))"
      unfolding get_top_team_def l by auto
    from bottom_scan_min [OF p'] obtain r where
      "bottom_scan ts t0 l = Inr r" "r \<in> set (t0 # l)"
      "\<forall>t\<in>set (t0 # l). ranks_below (ts r) (ts t)" by blast
    then have bot: "\<exists>r\<in>set (teams lg). get_bottom_team lg ts = Inr (Some r)
            \<and> (\<forall>t\<in>set (teams lg). ranks_below (ts r) (ts t))"
      unfolding get_bottom_team_def l by auto
    from top bot show ?thesis by blast
  qed
  from e ne show ?thesis by blast
qed

lemma table_values:
  "get_top_team ((League ''PL'')\<lparr> teams := [0, 1, 2, 3] \<rparr>) table = Inr (Some 1)
   \<and> get_bottom_team ((League ''PL'')\<lparr> teams := [0, 1, 2, 3] \<rparr>) table = Inr (Some 3)"
  by (simp add: get_top_team_def get_bottom_team_def League_def table_def Team_def)

theorem top_and_bottom_team_witness:
  "get_top_team ((League ''PL'')\<lparr> teams := [0, 1, 2, 3] \<rparr>) table = Inr (Some 1)
   \<and> ranks_below (table 0) (table 1) \<and> ranks_below (table 2) (table 1)
   \<and> ranks_below (table 3) (table 1)
   \<and> get_bottom_team ((League ''PL'')\<lparr> teams := [0, 1, 2, 3] \<rparr>) table = Inr (Some 3)
   \<and> ranks_below (table 3) (table 0) \<and> ranks_below (table 3) (table 1)
   \<and> ranks_below (table 3) (table 2)
   \<and> get_top_team (League ''PL'') table = Inr None
   \<and> get_bottom_team (League ''PL'') table = Inr None"
proof -
  let ?lg = "(League ''PL'')\<lparr> teams := [0, 1, 2, 3] \<rparr>"
  have t: "teams ?lg = [0, 1, 2, 3]" by simp
  have h: "teams ?lg \<noteq> [] \<and> (\<forall>t\<in>set (teams ?lg). points (table t) \<noteq> None)"
    by (simp add: table_def)
  from h top_and_bottom_team [of ?lg table] obtain r b where
    r: "get_top_team ?lg table = Inr (Some r)"
       "\<forall>t\<in>set (teams ?lg). ranks_below (table t) (table r)"
    and b: "get_bottom_team ?lg table = Inr (Some b)"
       "\<forall>t\<in>set (teams ?lg). ranks_below (table b) (table t)"
    by blast
  from r(1) b(1) table_values have rb: "r = 1" "b = 3" by simp_all
  from r(2) rb(1) have 1: "ranks_below (table 0) (table 1) \<and> ranks_below (table 2) (table 1)
      \<and> ranks_below (table 3) (table 1)" unfolding t by simp
  from b(2) rb(2) have 2: "ranks_below (table 3) (table 0) \<and> ranks_below (table 3) (table 1)
      \<and> ranks_below (table 3) (table 2)" unfolding t by simp
  have "teams (League ''PL'') = []" by (simp add: League_def)
  with top_and_bottom_team [of "League ''PL''" table]
  have 3: "get_top_team (League ''PL'') table = Inr None
   \<and> get_bottom_team (League ''PL'') table = Inr None" by blast
  from r(1) b(1) rb 1 2 3 show ?thesis by blast
qed

section \<open>Operations that check before they change anything\<close>

text \<open>
  Every Player method, the four checking Team methods and the two League methods below
  raise before their first assignment: when they raise, the receiver is as it was.
  \<^verbatim>\<open>reduce_loan_duration\<close> calls \<^verbatim>\<open>return_from_loan\<close> only on a player who is on loan, so
  it never raises.
\<close>

lemma reduce_loan_duration_returns: "\<not> raised (reduce_loan_duration p)"
  by (simp add: reduce_loan_duration_def return_from_loan_def Let_def)

lemma recover_from_injury_atomic:
  "raised (recover_from_injury p) \<Longrightarrow> state_of (recover_from_injury p) = p"
  by (cases "injured p") (simp_all add: recover_from_injury_def)

lemma change_position_atomic:
  "raised (change_position p v) \<Longrightarrow> state_of (change_position p v) = p"
  by (cases v) (simp_all add: change_position_def)

lemma record_match_atomic:
  "raised (record_match p g a) \<Longrightarrow> state_of (record_match p g a) = p"
  by (cases "g < 0 \<or> a < 0") (simp_all add: record_match_def)

lemma receive_card_atomic:
  "raised (receive_card p v) \<Longrightarrow> state_of (receive_card p v) = p"
  by (cases "v = PyStr ''yellow''"; cases "v = PyStr ''red''"; cases "yellow_cards p + 1 = 2")
     (simp_all add: receive_card_def Let_def)

lemma renew_contract_atomic:
  "raised (renew_contract p y) \<Longrightarrow> state_of (renew_contract p y) = p"
  by (cases "y \<le> 0") (simp_all add: renew_contract_def)

lemma change_morale_atomic:
  "raised (change_morale p v) \<Longrightarrow> state_of (change_morale p v) = p"
  by (cases v) (simp_all add: change_morale_def)

lemma loan_to_atomic:
  "raised (loan_to p c d) \<Longrightarrow> state_of (loan_to p c d) = p"
  by (cases "on_loan p"; cases "d \<le> 0") (simp_all add: loan_to_def)

lemma return_from_loan_atomic:
  "raised (return_from_loan p) \<Longrightarrow> state_of (return_from_loan p) = p"
  by (cases "on_loan p") (simp_all add: return_from_loan_def)

lemma call_failure_atomic: "raised (call p c) \<Longrightarrow> state_of (call p c) = p"
  by (cases c)
     (simp_all add: recover_from_injury_atomic change_position_atomic record_match_atomic
        receive_card_atomic renew_contract_atomic change_morale_atomic loan_to_atomic
        return_from_loan_atomic reduce_loan_duration_returns)

lemma team_checks_failure_atomic:
  "raised (add_player t r h) \<Longrightarrow> state_of (add_player t r h) = t"
  "raised (remove_player t r) \<Longrightarrow> state_of (remove_player t r) = t"
  "raised (set_formation t f) \<Longrightarrow> state_of (set_formation t f) = t"
  "raised (assign_starting_eleven t ps) \<Longrightarrow> state_of (assign_starting_eleven t ps) = t"
  by (auto simp: add_player_def remove_player_def set_formation_def
        assign_starting_eleven_def split: if_splits option.splits)

lemma league_checks_failure_atomic:
  "raised (add_team lg a) \<Longrightarrow> state_of (add_team lg a) = lg"
  "raised (remove_team lg t) \<Longrightarrow> state_of (remove_team lg t) = lg"
  by (auto simp: add_team_def remove_team_def split: if_splits league_arg.splits)

section \<open>Team: swapping players\<close>

lemma swap_players_absent:
  "player_out \<notin> set (players t) \<Longrightarrow>
     swap_players t player_out player_in h = Raised ValueError t"
  by (simp add: swap_players_def)

lemma swap_players_rejected_in:
  assumes "player_out \<in> set (players t)"
    and "player_in \<in> set (remove1 player_out (players t)) \<or> retired (cells h player_in)"
  shows "swap_players t player_out player_in h
           = Raised ValueError (t\<lparr> players := remove1 player_out (players t) \<rparr>)"
  using assms by (auto simp: swap_players_def remove_player_def add_player_def)

text \<open>
  C1. The claim is that an operation that raises leaves everything as it was, and in
  particular that a \<^verbatim>\<open>swap_players\<close> that raises leaves the roster unchanged.
  \<^verbatim>\<open>swap_players\<close> checks only \<open>player_out\<close> before it removes that player; the checks on
  \<open>player_in\<close> run afterwards, inside \<^verbatim>\<open>add_player\<close>. With the roster \<open>[0, 1, 2]\<close>,
  swapping player 0 for the retired player 3, or for player 1 who is already on the
  roster, raises \<^verbatim>\<open>ValueError\<close> and leaves the roster \<open>[1, 2]\<close>: player 0 is gone.
\<close>

theorem swap_players_raises_after_removing:
  "players club = [0, 1, 2] \<and> retired (cells squad 3)
   \<and> swap_players club 0 3 squad = Raised ValueError (club\<lparr> players := [1, 2] \<rparr>)
   \<and> raised (swap_players club 0 3 squad)
   \<and> players (state_of (swap_players club 0 3 squad)) = [1, 2]
   \<and> swap_players club 0 1 squad = Raised ValueError (club\<lparr> players := [1, 2] \<rparr>)"
proof -
  have p: "players club = [0, 1, 2]" by (simp add: club_def)
  have r: "retired (cells squad 3)"
    by (simp add: squad_def check_retirement_def new_player_def)
  have o: "(0::nat) \<in> set (players club)" using p by simp
  have rm: "remove1 0 (players club) = [1, 2]" using p by simp
  from swap_players_rejected_in [OF o, of 3 squad] r rm
  have 1: "swap_players club 0 3 squad = Raised ValueError (club\<lparr> players := [1, 2] \<rparr>)"
    by simp
  have "(1::nat) \<in> set (remove1 0 (players club))" using rm by simp
  from swap_players_rejected_in [OF o, of 1 squad] this rm
  have 2: "swap_players club 0 1 squad = Raised ValueError (club\<lparr> players := [1, 2] \<rparr>)"
    by simp
  from 1 have 3: "raised (swap_players club 0 3 squad)
     \<and> players (state_of (swap_players club 0 3 squad)) = [1, 2]" by simp
  from p r 1 2 3 show ?thesis by blast
qed

section \<open>Manager: buying a player\<close>

lemma Team_max_players: "max_players (Team nm) = None"
  by (simp add: Team_def)

text \<open>
  C10, as amended. When the managed team has no \<open>max_players\<close> attribute, which is how
  \<^verbatim>\<open>Team.__init__\<close> leaves it, buying any player who is not on the roster raises
  \<^verbatim>\<open>AttributeError\<close> at any price, and manager, team and budget stay as they were.
\<close>

theorem buy_player_without_max_players:
  assumes "max_players (team m) = None" and "r \<notin> set (players (team m))"
  shows "buy_player m r price h = Raised AttributeError m"
  using assms by (simp add: buy_player_def)

theorem buy_player_without_max_players_witness:
  "max_players (team (Manager club)) = None \<and> 3 \<notin> set (players (team (Manager club)))
   \<and> buy_player (Manager club) 3 10 squad = Raised AttributeError (Manager club)"
proof -
  have a: "max_players (team (Manager club)) = None"
    by (simp add: Manager_def club_def Team_def)
  have b: "3 \<notin> set (players (team (Manager club)))"
    by (simp add: Manager_def club_def)
  from buy_player_without_max_players [OF a b, of 10 squad] a b show ?thesis by blast
qed

text \<open>
  C10 as stated, for every manager, does not hold: once \<open>max_players\<close> has been assigned
  from outside (the test suite sets it to 20 before buying), a purchase within capacity
  and budget returns normally, the player joins the roster and the budget drops by the
  price.
\<close>

theorem buy_player_with_max_players_succeeds:
  "2 \<notin> set (players (team \<lparr> team = (Team ''FC Barcelona'')\<lparr> players := [0, 1], max_players := Some 20 \<rparr>,
                               budget = 50 \<rparr>))
   \<and> buy_player \<lparr> team = (Team ''FC Barcelona'')\<lparr> players := [0, 1], max_players := Some 20 \<rparr>,
                   budget = 50 \<rparr> 2 30 squad
     = Done \<lparr> team = (Team ''FC Barcelona'')\<lparr> players := [0, 1, 2], max_players := Some 20 \<rparr>,
              budget = 20 \<rparr>
   \<and> \<not> raised (buy_player \<lparr> team = (Team ''FC Barcelona'')\<lparr> players := [0, 1], max_players := Some 20 \<rparr>,
                   budget = 50 \<rparr> 2 30 squad)"
  by (simp add: buy_player_def add_player_def Team_def squad_def new_player_def)

section \<open>Manager: saving and loading a team\<close>

lemma Position_of_name_position_name: "Position_of_name (position_name pos) = Inr pos"
  by (cases pos) (simp_all add: Position_of_name_def)

lemma load_players_step:
  assumes rng: "15 \<le> age q \<and> age q \<le> 50 \<and> 0 \<le> overall_rating q \<and> overall_rating q \<le> 100"
    and old: "\<forall>r\<in>set (players t). r < fresh h"
  shows "load_players (player_to_doc q # ds) t h
           = load_players ds (t\<lparr> players := players t @ [fresh h] \<rparr>)
               (h\<lparr> cells := (cells h)(fresh h := reloaded q), fresh := Suc (fresh h) \<rparr>)"
proof -
  have c: "Player (name q) (position q) (age q) (overall_rating q)
             = Inr (new_player (name q) (position q) (age q) (overall_rating q))"
    using rng by (simp add: Player_def)
  have n: "fresh h \<notin> set (players t)" using old by auto
  have r: "\<not> retired (reloaded q)" by (simp add: reloaded_def new_player_def)
  show ?thesis
    using c n r
    by (simp add: player_to_doc_def Position_of_name_position_name alloc_def add_player_def
          reloaded_def)
qed


lemma load_players_saved:
  assumes "\<forall>q\<in>set qs. 15 \<le> age q \<and> age q \<le> 50 \<and> 0 \<le> overall_rating q \<and> overall_rating q \<le> 100"
    and "\<forall>r\<in>set (players t). r < fresh h"
  shows "\<exists>h'. load_players (map player_to_doc qs) t h
                 = (Inr (t\<lparr> players := players t @ [fresh h ..< fresh h + length qs] \<rparr>), h')
           \<and> (\<forall>r < fresh h. cells h' r = cells h r)
           \<and> (\<forall>i < length qs. cells h' (fresh h + i) = reloaded (qs ! i))"
  using assms
proof (induction qs arbitrary: t h)
  case Nil
  then show ?case by simp
next
  case (Cons q qs)
  let ?t1 = "t\<lparr> players := players t @ [fresh h] \<rparr>"
  let ?h1 = "h\<lparr> cells := (cells h)(fresh h := reloaded q), fresh := Suc (fresh h) \<rparr>"
  have rng: "15 \<le> age q \<and> age q \<le> 50 \<and> 0 \<le> overall_rating q \<and> overall_rating q \<le> 100"
    using Cons.prems(1) by simp
  have step: "load_players (map player_to_doc (q # qs)) t h
                = load_players (map player_to_doc qs) ?t1 ?h1"
    using load_players_step [OF rng Cons.prems(2)] by simp
  have a1: "\<forall>q\<in>set qs. 15 \<le> age q \<and> age q \<le> 50 \<and> 0 \<le> overall_rating q \<and> overall_rating q \<le> 100"
    using Cons.prems(1) by simp
  have a2: "\<forall>r\<in>set (players ?t1). r < fresh ?h1"
    using Cons.prems(2) by (auto simp: less_Suc_eq)
  from Cons.IH [OF a1 a2] obtain h' where
    l: "load_players (map player_to_doc qs) ?t1 ?h1
          = (Inr (?t1\<lparr> players := players ?t1 @ [fresh ?h1 ..< fresh ?h1 + length qs] \<rparr>), h')"
    and old: "\<forall>r < fresh ?h1. cells h' r = cells ?h1 r"
    and new: "\<forall>i < length qs. cells h' (fresh ?h1 + i) = reloaded (qs ! i)"
    by blast
  have upt: "[fresh h] @ [Suc (fresh h) ..< Suc (fresh h) + length qs]
               = [fresh h ..< fresh h + length (q # qs)]"
    using upt_rec [of "fresh h" "Suc (fresh h) + length qs"] by simp
  have res: "?t1\<lparr> players := players ?t1 @ [fresh ?h1 ..< fresh ?h1 + length qs] \<rparr>
               = t\<lparr> players := players t @ [fresh h ..< fresh h + length (q # qs)] \<rparr>"
    using upt by simp
  have 1: "load_players (map player_to_doc (q # qs)) t h
             = (Inr (t\<lparr> players := players t @ [fresh h ..< fresh h + length (q # qs)] \<rparr>), h')"
    using step l res by simp
  have 2: "\<forall>r < fresh h. cells h' r = cells h r"
    using old by simp
  have 3: "\<forall>i < length (q # qs). cells h' (fresh h + i) = reloaded ((q # qs) ! i)"
  proof (intro allI impI)
    fix i assume i: "i < length (q # qs)"
    show "cells h' (fresh h + i) = reloaded ((q # qs) ! i)"
    proof (cases i)
      case 0
      with old show ?thesis by simp
    next
      case (Suc j)
      with i have "j < length qs" by simp
      with new have "cells h' (fresh ?h1 + j) = reloaded (qs ! j)" by blast
      with Suc show ?thesis by simp
    qed
  qed
  from 1 2 3 show ?case by blast
qed


lemma reloaded_fields:
  "name (reloaded q) = name q \<and> position (reloaded q) = position q \<and> age (reloaded q) = age q
   \<and> overall_rating (reloaded q) = overall_rating q \<and> stamina (reloaded q) = stamina q
   \<and> injured (reloaded q) = injured q
   \<and> goals (reloaded q) = 0 \<and> assists (reloaded q) = 0 \<and> matches_played (reloaded q) = 0
   \<and> yellow_cards (reloaded q) = 0 \<and> red_cards (reloaded q) = 0 \<and> \<not> suspended (reloaded q)
   \<and> contract_years_left (reloaded q) = 3 \<and> morale (reloaded q) = 70
   \<and> \<not> is_captain (reloaded q) \<and> \<not> retired (reloaded q)
   \<and> \<not> on_loan (reloaded q) \<and> loaned_to (reloaded q) = None \<and> loan_duration (reloaded q) = 0"
  by (simp add: reloaded_def new_player_def)

text \<open>
  C2, as amended. Take a team all of whose players have an age in 15..50 and a rating in
  0..100 at the time of saving. Saving it to a file and loading that file (by any manager,
  in any later store) returns a team with the same name and the same number of players,
  all of them distinct new objects. The i-th loaded player has the name, position, age,
  rating, stamina and injury flag of the i-th saved player, and in every other field the
  value the constructor assigns: goals, assists, matches played, cards and loan duration
  0, contract years 3, morale 70, no captaincy, suspension, retirement or loan.
\<close>

theorem save_load_round_trip:
  assumes "\<forall>r\<in>set (players (team m)).
             15 \<le> age (cells h r) \<and> age (cells h r) \<le> 50
             \<and> 0 \<le> overall_rating (cells h r) \<and> overall_rating (cells h r) \<le> 100"
  shows "\<exists>t' h'. load_team_from_file m2 f h2 (save_team_to_file m f h fs) = (Inr t', h')
           \<and> team_name t' = team_name (team m)
           \<and> length (players t') = length (players (team m))
           \<and> distinct (players t')
           \<and> (\<forall>i < length (players (team m)).
                 cells h' (players t' ! i) = reloaded (cells h (players (team m) ! i)))
           \<and> (\<forall>q. name (reloaded q) = name q \<and> position (reloaded q) = position q
                 \<and> age (reloaded q) = age q \<and> overall_rating (reloaded q) = overall_rating q
                 \<and> stamina (reloaded q) = stamina q \<and> injured (reloaded q) = injured q
                 \<and> goals (reloaded q) = 0 \<and> assists (reloaded q) = 0
                 \<and> matches_played (reloaded q) = 0
                 \<and> yellow_cards (reloaded q) = 0 \<and> red_cards (reloaded q) = 0
                 \<and> \<not> suspended (reloaded q)
                 \<and> contract_years_left (reloaded q) = 3 \<and> morale (reloaded q) = 70
                 \<and> \<not> is_captain (reloaded q) \<and> \<not> retired (reloaded q)
                 \<and> \<not> on_loan (reloaded q) \<and> loaned_to (reloaded q) = None
                 \<and> loan_duration (reloaded q) = 0)"
proof -
  let ?ps = "players (team m)"
  let ?qs = "map (cells h) ?ps"
  let ?t0 = "Team (team_name (team m))"
  have a1: "\<forall>q\<in>set ?qs. 15 \<le> age q \<and> age q \<le> 50 \<and> 0 \<le> overall_rating q \<and> overall_rating q \<le> 100"
    using assms by simp
  have a2: "\<forall>r\<in>set (players ?t0). r < fresh h2" by (simp add: Team_def)
  from load_players_saved [OF a1 a2] obtain h' where
    l: "load_players (map player_to_doc ?qs) ?t0 h2
          = (Inr (?t0\<lparr> players := players ?t0 @ [fresh h2 ..< fresh h2 + length ?qs] \<rparr>), h')"
    and new: "\<forall>i < length ?qs. cells h' (fresh h2 + i) = reloaded (?qs ! i)"
    by blast
  let ?t' = "?t0\<lparr> players := players ?t0 @ [fresh h2 ..< fresh h2 + length ?qs] \<rparr>"
  have pl: "players ?t' = [fresh h2 ..< fresh h2 + length ?ps]" by (simp add: Team_def)
  have ld: "load_team_from_file m2 f h2 (save_team_to_file m f h fs) = (Inr ?t', h')"
    using l by (simp add: load_team_from_file_def save_team_to_file_def comp_def)
  have nm: "team_name ?t' = team_name (team m)" by (simp add: Team_def)
  have len: "length (players ?t') = length ?ps" using pl by simp
  have dis: "distinct (players ?t')" using pl by simp
  have cel: "\<forall>i < length ?ps. cells h' (players ?t' ! i) = reloaded (cells h (?ps ! i))"
    using new pl by simp
  from ld nm len dis cel reloaded_fields show ?thesis by blast
qed


theorem save_load_round_trip_witness:
  "\<exists>t' h'. load_team_from_file (Manager club) ''team.json'' squad
                (save_team_to_file (Manager club) ''team.json'' squad Map.empty) = (Inr t', h')
      \<and> team_name t' = ''FC Example'' \<and> length (players t') = 3
      \<and> cells h' (players t' ! 0) = reloaded (cells squad 0)
      \<and> goals (cells squad 0) = 3 \<and> goals (cells h' (players t' ! 0)) = 0
      \<and> overall_rating (cells h' (players t' ! 0)) = 80"
proof -
  have p: "players (team (Manager club)) = [0, 1, 2]" by (simp add: Manager_def club_def)
  have n: "team_name (team (Manager club)) = ''FC Example''"
    by (simp add: Manager_def club_def Team_def)
  have a: "\<forall>r\<in>set (players (team (Manager club))).
             15 \<le> age (cells squad r) \<and> age (cells squad r) \<le> 50
             \<and> 0 \<le> overall_rating (cells squad r) \<and> overall_rating (cells squad r) \<le> 100"
    unfolding p by (simp add: squad_def new_player_def)
  from save_load_round_trip [OF a, of "Manager club" "''team.json''" squad Map.empty]
  obtain t' h' where
    l: "load_team_from_file (Manager club) ''team.json'' squad
          (save_team_to_file (Manager club) ''team.json'' squad Map.empty) = (Inr t', h')"
    and nm: "team_name t' = team_name (team (Manager club))"
    and len: "length (players t') = length (players (team (Manager club)))"
    and c: "\<forall>i < length (players (team (Manager club))).
              cells h' (players t' ! i) = reloaded (cells squad (players (team (Manager club)) ! i))"
    by blast
  from c p have c0: "cells h' (players t' ! 0) = reloaded (cells squad 0)" by simp
  have g: "goals (cells squad 0) = 3" by (simp add: squad_def)
  have g': "goals (cells h' (players t' ! 0)) = 0" unfolding c0 by (simp add: reloaded_def new_player_def)
  have r': "overall_rating (cells h' (players t' ! 0)) = 80"
    unfolding c0 by (simp add: reloaded_def new_player_def squad_def)
  from l nm n len p c0 g g' r' show ?thesis by auto
qed

text \<open>
  C2 as stated, for every team, does not hold. A player constructed at age 50 can join a
  team and then have \<^verbatim>\<open>age_up\<close> called, which has no upper limit. The team is saved without
  complaint, but loading runs the saved age 51 through the constructor, which raises
  \<^verbatim>\<open>ValueError\<close>: no team comes back.
\<close>

theorem save_load_fails_for_player_over_50:
  "Player ''Old'' GOALKEEPER 50 60 = Inr (new_player ''Old'' GOALKEEPER 50 60)
   \<and> cells squad 4 = age_up (new_player ''Old'' GOALKEEPER 50 60)
   \<and> age (cells squad 4) = 51
   \<and> add_player (Team ''Old Boys'') 4 squad = Done ((Team ''Old Boys'')\<lparr> players := [4] \<rparr>)
   \<and> fst (load_team_from_file (Manager ((Team ''Old Boys'')\<lparr> players := [4] \<rparr>)) ''team.json'' squad
            (save_team_to_file (Manager ((Team ''Old Boys'')\<lparr> players := [4] \<rparr>)) ''team.json'' squad
               Map.empty))
       = Inl ValueError"
  by (simp add: Player_def squad_def age_up_def new_player_def add_player_def Team_def
        Manager_def load_team_from_file_def save_team_to_file_def player_to_doc_def
        Position_of_name_def)

end
